theory Spec2Isabelle
  imports Main
begin

section \<open>Exceptions and Python values\<close>

text \<open>
  The exceptions that can leave the code of \<^verbatim>\<open>parsl/data_provider/files.py\<close>.
  \<open>TypeError\<close> is what the \<^verbatim>\<open>typeguard.typechecked\<close> decorator raises, \<open>ValueError\<close>
  is what \<^verbatim>\<open>urllib.parse.urlparse\<close> raises (their messages are not modelled), and
  \<open>Exception msg\<close> is the plain \<^verbatim>\<open>Exception(msg)\<close> that \<^verbatim>\<open>is_remote\<close> and
  \<^verbatim>\<open>filepath\<close> raise for a scheme they do not know.
\<close>

datatype exn = TypeError | ValueError | Exception string

text \<open>
  A Python string is modelled as a \<open>string\<close>: one \<open>char\<close> per code point, for the
  strings whose code points are all below 256.
\<close>

datatype py_value =
    PyStr string
  | PyBytes "nat list"
  | PyInt int
  | PyBool bool
  | PyNone
  | PyList "py_value list"

section \<open>String operations of Python\<close>

text \<open>\<^verbatim>\<open>s.find(c)\<close> for a one-character \<open>c\<close>; \<open>None\<close> stands for the result \<open>-1\<close>.\<close>

primrec str_find :: "string \<Rightarrow> char \<Rightarrow> nat option" where
  "str_find [] c = None"
| "str_find (x # xs) c = (if x = c then Some 0 else map_option Suc (str_find xs c))"

text \<open>\<^verbatim>\<open>s.find(c, start)\<close> for \<open>start \<ge> 0\<close>.\<close>

definition str_find_from :: "string \<Rightarrow> char \<Rightarrow> nat \<Rightarrow> nat option" where
  "str_find_from s c start = map_option (\<lambda>i. start + i) (str_find (drop start s) c)"

text \<open>\<^verbatim>\<open>s.rfind(c)\<close>: the index of the last occurrence.\<close>

definition str_rfind :: "string \<Rightarrow> char \<Rightarrow> nat option" where
  "str_rfind s c = map_option (\<lambda>i. length s - Suc i) (str_find (rev s) c)"

text \<open>\<^verbatim>\<open>s.split(c)\<close>: the fields between the occurrences of \<open>c\<close>, at least one.\<close>

fun str_split :: "string \<Rightarrow> char \<Rightarrow> string list" where
  "str_split [] c = [[]]"
| "str_split (x # xs) c =
     (if x = c then [] # str_split xs c
      else (case str_split xs c of
              [] \<Rightarrow> [[x]]
            | w # ws \<Rightarrow> (x # w) # ws))"

text \<open>\<^verbatim>\<open>s.lstrip(chars)\<close> and \<^verbatim>\<open>s.replace(c, "")\<close>.\<close>

definition str_lstrip :: "string \<Rightarrow> string \<Rightarrow> string" where
  "str_lstrip s chars = dropWhile (\<lambda>c. c \<in> set chars) s"

definition str_remove :: "string \<Rightarrow> char \<Rightarrow> string" where
  "str_remove s c = filter (\<lambda>x. x \<noteq> c) s"

text \<open>\<^verbatim>\<open>s.lower()\<close>; it is only applied to strings of \<open>scheme_chars\<close>.\<close>

definition lower_char :: "char \<Rightarrow> char" where
  "lower_char c =
     (case map_of (zip ''ABCDEFGHIJKLMNOPQRSTUVWXYZ'' ''abcdefghijklmnopqrstuvwxyz'') c of
        Some d \<Rightarrow> d
      | None \<Rightarrow> c)"

definition str_lower :: "string \<Rightarrow> string" where
  "str_lower s = map lower_char s"

text \<open>\<^verbatim>\<open>c.isascii() and c.isalpha()\<close>.\<close>

definition is_ascii_alpha :: "char \<Rightarrow> bool" where
  "is_ascii_alpha c \<longleftrightarrow>
     c \<in> set ''abcdefghijklmnopqrstuvwxyzABCDEFGHIJKLMNOPQRSTUVWXYZ''"

section \<open>\<^verbatim>\<open>os.path.basename\<close>\<close>

text \<open>
  \<^verbatim>\<open>
  def basename(p):
      sep = _get_sep(p)
      i = p.rfind(sep) + 1
      return p[i:]
  \<close>
\<close>

definition basename :: "string \<Rightarrow> string" where
  "basename p =
     (let i = (case str_rfind p CHR ''/'' of None \<Rightarrow> 0 | Some j \<Rightarrow> j + 1)
      in drop i p)"

section \<open>\<^verbatim>\<open>ipaddress\<close>: which strings are addresses\<close>

text \<open>
  \<^verbatim>\<open>urlsplit\<close> only asks whether the text between square brackets is an address, so
  the constructors \<^verbatim>\<open>IPv4Address\<close> and \<^verbatim>\<open>IPv6Address\<close> are modelled by the
  condition under which they return (do not raise \<^verbatim>\<open>AddressValueError\<close>).
\<close>

definition DECIMAL_DIGITS :: string where
  "DECIMAL_DIGITS = ''0123456789''"

definition HEX_DIGITS :: string where
  "HEX_DIGITS = ''0123456789ABCDEFabcdef''"

definition int_base10 :: "string \<Rightarrow> nat" where
  "int_base10 s = foldl (\<lambda>n c. 10 * n + (of_char c - 48)) 0 s"

definition parse_octet_ok :: "string \<Rightarrow> bool" where
  "parse_octet_ok octet_str \<longleftrightarrow>
     octet_str \<noteq> []
     \<and> (\<forall>c \<in> set octet_str. c \<in> set DECIMAL_DIGITS)
     \<and> length octet_str \<le> 3
     \<and> \<not> (octet_str \<noteq> ''0'' \<and> hd octet_str = CHR ''0'')
     \<and> int_base10 octet_str \<le> 255"

definition IPv4Address_ok :: "string \<Rightarrow> bool" where
  "IPv4Address_ok addr_str \<longleftrightarrow>
     CHR ''/'' \<notin> set addr_str
     \<and> addr_str \<noteq> []
     \<and> (let octets = str_split addr_str CHR ''.''
        in length octets = 4 \<and> (\<forall>octet \<in> set octets. parse_octet_ok octet))"

definition parse_hextet_ok :: "string \<Rightarrow> bool" where
  "parse_hextet_ok hextet_str \<longleftrightarrow>
     (\<forall>c \<in> set hextet_str. c \<in> set HEX_DIGITS)
     \<and> length hextet_str \<le> 4
     \<and> hextet_str \<noteq> []"

text \<open>
  \<^verbatim>\<open>_BaseV6._ip_int_from_string\<close>. A dotted-quad suffix is replaced by its two
  hextets, written here as \<open>''0''\<close> twice: whatever their digits, they are well formed.
\<close>

definition ip6_int_from_string_ok :: "string \<Rightarrow> bool" where
  "ip6_int_from_string_ok ip_str \<longleftrightarrow>
     (if ip_str = [] then False
      else let parts0 = str_split ip_str CHR '':'' in
      if length parts0 < 3 then False
      else if CHR ''.'' \<in> set (last parts0) \<and> \<not> IPv4Address_ok (last parts0) then False
      else let parts = (if CHR ''.'' \<in> set (last parts0)
                        then butlast parts0 @ [''0'', ''0''] else parts0) in
      if length parts > 9 then False
      else let skips = filter (\<lambda>i. parts ! i = []) [1 ..< length parts - 1] in
      if length skips > 1 then False
      else (case skips of
              [] \<Rightarrow>
                length parts = 8 \<and> hd parts \<noteq> [] \<and> last parts \<noteq> []
                \<and> (\<forall>h \<in> set parts. parse_hextet_ok h)
            | skip_index # _ \<Rightarrow>
                (let parts_hi = (if hd parts = [] then skip_index - 1 else skip_index);
                     parts_lo = (if last parts = [] then length parts - skip_index - 1 - 1
                                 else length parts - skip_index - 1)
                 in if hd parts = [] \<and> parts_hi \<noteq> 0 then False
                    else if last parts = [] \<and> parts_lo \<noteq> 0 then False
                    else if 8 < parts_hi + parts_lo + 1 then False
                    else (\<forall>h \<in> set (take parts_hi parts). parse_hextet_ok h)
                       \<and> (\<forall>h \<in> set (drop (length parts - parts_lo) parts).
                             parse_hextet_ok h))))"

text \<open>\<^verbatim>\<open>IPv6Address(address)\<close>, with \<^verbatim>\<open>_split_scope_id\<close>.\<close>

definition IPv6Address_ok :: "string \<Rightarrow> bool" where
  "IPv6Address_ok address \<longleftrightarrow>
     CHR ''/'' \<notin> set address
     \<and> (case str_find address CHR ''%'' of
          None \<Rightarrow> ip6_int_from_string_ok address
        | Some i \<Rightarrow>
            (let scope_id = drop (Suc i) address
             in scope_id \<noteq> [] \<and> CHR ''%'' \<notin> set scope_id
                \<and> ip6_int_from_string_ok (take i address)))"

section \<open>\<^verbatim>\<open>urllib.parse.urlparse\<close>\<close>

text \<open>
  The model follows \<^verbatim>\<open>urllib/parse.py\<close> of CPython 3.11 for \<^verbatim>\<open>str\<close> arguments and
  the default \<^verbatim>\<open>scheme=''\<close>, \<^verbatim>\<open>allow_fragments=True\<close>. The result cache has no
  effect on the result. \<^verbatim>\<open>_checknetloc\<close> raises only when NFKC normalisation of the
  authority yields one of \<^verbatim>\<open>/?#@:\<close>; no code point below 256 normalises to a string
  with one of them, so on the strings modelled here it never raises.
\<close>

definition uses_params :: "string list" where
  "uses_params = ['''', ''ftp'', ''hdl'', ''prospero'', ''http'', ''imap'',
                  ''https'', ''shttp'', ''rtsp'', ''rtsps'', ''rtspu'', ''sip'',
                  ''sips'', ''mms'', ''sftp'', ''tel'']"

definition scheme_chars :: string where
  "scheme_chars = ''abcdefghijklmnopqrstuvwxyz'' @ ''ABCDEFGHIJKLMNOPQRSTUVWXYZ''
                  @ ''0123456789'' @ ''+-.''"

definition WHATWG_C0_CONTROL_OR_SPACE :: string where
  "WHATWG_C0_CONTROL_OR_SPACE =
     [CHR 0x00, CHR 0x01, CHR 0x02, CHR 0x03, CHR 0x04, CHR 0x05, CHR 0x06, CHR 0x07,
      CHR 0x08, CHR 0x09, CHR 0x0A, CHR 0x0B, CHR 0x0C, CHR 0x0D, CHR 0x0E, CHR 0x0F,
      CHR 0x10, CHR 0x11, CHR 0x12, CHR 0x13, CHR 0x14, CHR 0x15, CHR 0x16, CHR 0x17,
      CHR 0x18, CHR 0x19, CHR 0x1A, CHR 0x1B, CHR 0x1C, CHR 0x1D, CHR 0x1E, CHR 0x1F,
      CHR '' '']"

definition UNSAFE_URL_BYTES_TO_REMOVE :: string where
  "UNSAFE_URL_BYTES_TO_REMOVE = [CHR 0x09, CHR 0x0D, CHR 0x0A]"

text \<open>
  \<^verbatim>\<open>
  def _splitnetloc(url, start=0):
      delim = len(url)
      for c in '/?#':
          wdelim = url.find(c, start)
          if wdelim >= 0:
              delim = min(delim, wdelim)
      return url[start:delim], url[delim:]
  \<close>
\<close>

definition splitnetloc :: "string \<Rightarrow> nat \<Rightarrow> string \<times> string" where
  "splitnetloc url start =
     (let delim = foldl (\<lambda>delim c. case str_find_from url c start of
                                       Some wdelim \<Rightarrow> min delim wdelim
                                     | None \<Rightarrow> delim)
                        (length url) ''/?#''
      in (drop start (take delim url), drop delim url))"

text \<open>
  \<^verbatim>\<open>re.match(r"\Av[a-fA-F0-9]+\..+\Z", hostname)\<close>: a \<open>v\<close>, the longest run of hex
  digits (not empty), a dot, and a rest that is not empty and has no newline.
\<close>

definition ipvfuture_match :: "string \<Rightarrow> bool" where
  "ipvfuture_match hostname \<longleftrightarrow>
     (case hostname of
        [] \<Rightarrow> False
      | c # t \<Rightarrow>
          c = CHR ''v''
          \<and> takeWhile (\<lambda>x. x \<in> set HEX_DIGITS) t \<noteq> []
          \<and> (case dropWhile (\<lambda>x. x \<in> set HEX_DIGITS) t of
                [] \<Rightarrow> False
              | d # rest \<Rightarrow> d = CHR ''.'' \<and> rest \<noteq> [] \<and> CHR 0x0A \<notin> set rest))"

text \<open>
  \<^verbatim>\<open>
  def _check_bracketed_host(hostname):
      if hostname.startswith('v'):
          if not re.match(r"\Av[a-fA-F0-9]+\..+\Z", hostname):
              raise ValueError(f"IPvFuture address is invalid")
      else:
          ip = ipaddress.ip_address(hostname)
          if isinstance(ip, ipaddress.IPv4Address):
              raise ValueError(f"An IPv4 address cannot be in brackets")
  \<close>
  \<^verbatim>\<open>ip_address\<close> tries \<^verbatim>\<open>IPv4Address\<close> first, then \<^verbatim>\<open>IPv6Address\<close>, and raises
  \<^verbatim>\<open>ValueError\<close> when both fail.
\<close>

definition check_bracketed_host :: "string \<Rightarrow> exn + unit" where
  "check_bracketed_host hostname =
     (if take 1 hostname = ''v'' then
        (if \<not> ipvfuture_match hostname then Inl ValueError else Inr ())
      else if IPv4Address_ok hostname then Inl ValueError
      else if IPv6Address_ok hostname then Inr ()
      else Inl ValueError)"

text \<open>\<^verbatim>\<open>netloc.partition('[')[2].partition(']')[0]\<close>\<close>

definition bracketed_host :: "string \<Rightarrow> string" where
  "bracketed_host netloc =
     (let after = (case str_find netloc CHR ''['' of
                     None \<Rightarrow> []
                   | Some i \<Rightarrow> drop (Suc i) netloc)
      in case str_find after CHR '']'' of
           None \<Rightarrow> after
         | Some j \<Rightarrow> take j after)"

record SplitResult =
  sr_scheme :: string
  sr_netloc :: string
  sr_path :: string
  sr_query :: string
  sr_fragment :: string

text \<open>
  \<^verbatim>\<open>
  def urlsplit(url, scheme='', allow_fragments=True):
      url = url.lstrip(_WHATWG_C0_CONTROL_OR_SPACE)
      for b in _UNSAFE_URL_BYTES_TO_REMOVE:
          url = url.replace(b, "")
      netloc = query = fragment = ''
      i = url.find(':')
      if i > 0 and url[0].isascii() and url[0].isalpha():
          for c in url[:i]:
              if c not in scheme_chars:
                  break
          else:
              scheme, url = url[:i].lower(), url[i+1:]
      if url[:2] == '//':
          netloc, url = _splitnetloc(url, 2)
          if (('[' in netloc and ']' not in netloc) or
                  (']' in netloc and '[' not in netloc)):
              raise ValueError("Invalid IPv6 URL")
          if '[' in netloc and ']' in netloc:
              bracketed_host = netloc.partition('[')[2].partition(']')[0]
              _check_bracketed_host(bracketed_host)
      if allow_fragments and '#' in url:
          url, fragment = url.split('#', 1)
      if '?' in url:
          url, query = url.split('?', 1)
      _checknetloc(netloc)
      v = SplitResult(scheme, netloc, url, query, fragment)
      return _coerce_result(v)
  \<close>
\<close>

definition split_scheme :: "string \<Rightarrow> string \<times> string" where
  "split_scheme url =
     (case str_find url CHR '':'' of
        None \<Rightarrow> ('''', url)
      | Some i \<Rightarrow>
          if 0 < i \<and> is_ascii_alpha (hd url)
             \<and> (\<forall>c \<in> set (take i url). c \<in> set scheme_chars)
          then (str_lower (take i url), drop (Suc i) url)
          else ('''', url))"

definition split_once :: "string \<Rightarrow> char \<Rightarrow> string \<times> string" where
  "split_once url c =
     (case str_find url c of
        None \<Rightarrow> (url, '''')
      | Some i \<Rightarrow> (take i url, drop (Suc i) url))"

definition urlsplit :: "string \<Rightarrow> exn + SplitResult" where
  "urlsplit url0 =
     (let url1 = str_lstrip url0 WHATWG_C0_CONTROL_OR_SPACE;
          url2 = foldl str_remove url1 UNSAFE_URL_BYTES_TO_REMOVE;
          (scheme, url3) = split_scheme url2;
          (netloc, url4) = (if take 2 url3 = ''//'' then splitnetloc url3 2 else ('''', url3))
      in if take 2 url3 = ''//''
            \<and> ((CHR ''['' \<in> set netloc \<and> CHR '']'' \<notin> set netloc)
               \<or> (CHR '']'' \<in> set netloc \<and> CHR ''['' \<notin> set netloc))
         then Inl ValueError
         else
           (case (if take 2 url3 = ''//'' \<and> CHR ''['' \<in> set netloc \<and> CHR '']'' \<in> set netloc
                  then check_bracketed_host (bracketed_host netloc) else Inr ()) of
              Inl e \<Rightarrow> Inl e
            | Inr _ \<Rightarrow>
                (let (url5, fragment) = split_once url4 CHR ''#'';
                     (url6, query) = split_once url5 CHR ''?''
                 in Inr \<lparr>sr_scheme = scheme, sr_netloc = netloc, sr_path = url6,
                         sr_query = query, sr_fragment = fragment\<rparr>)))"

text \<open>
  \<^verbatim>\<open>
  def _splitparams(url):
      if '/'  in url:
          i = url.find(';', url.rfind('/'))
          if i < 0:
              return url, ''
      else:
          i = url.find(';')
      return url[:i], url[i+1:]
  \<close>
  In the second branch a result \<open>-1\<close> of \<^verbatim>\<open>find\<close> makes the slices \<^verbatim>\<open>url[:-1]\<close> and
  \<^verbatim>\<open>url[0:]\<close>.
\<close>

definition splitparams :: "string \<Rightarrow> string \<times> string" where
  "splitparams url =
     (case str_rfind url CHR ''/'' of
        Some r \<Rightarrow>
          (case str_find_from url CHR '';'' r of
             None \<Rightarrow> (url, '''')
           | Some i \<Rightarrow> (take i url, drop (Suc i) url))
      | None \<Rightarrow>
          (case str_find url CHR '';'' of
             None \<Rightarrow> (butlast url, url)
           | Some i \<Rightarrow> (take i url, drop (Suc i) url)))"

record ParseResult =
  pr_scheme :: string
  pr_netloc :: string
  pr_path :: string
  pr_params :: string
  pr_query :: string
  pr_fragment :: string

text \<open>
  \<^verbatim>\<open>
  def urlparse(url, scheme='', allow_fragments=True):
      splitresult = urlsplit(url, scheme, allow_fragments)
      scheme, netloc, url, query, fragment = splitresult
      if scheme in uses_params and ';' in url:
          url, params = _splitparams(url)
      else:
          params = ''
      result = ParseResult(scheme, netloc, url, params, query, fragment)
      return _coerce_result(result)
  \<close>
\<close>

definition urlparse :: "string \<Rightarrow> exn + ParseResult" where
  "urlparse url =
     (case urlsplit url of
        Inl e \<Rightarrow> Inl e
      | Inr sr \<Rightarrow>
          (let (p, params) =
                 (if sr_scheme sr \<in> set uses_params \<and> CHR '';'' \<in> set (sr_path sr)
                  then splitparams (sr_path sr) else (sr_path sr, ''''))
           in Inr \<lparr>pr_scheme = sr_scheme sr, pr_netloc = sr_netloc sr, pr_path = p,
                   pr_params = params, pr_query = sr_query sr,
                   pr_fragment = sr_fragment sr\<rparr>))"

section \<open>The File class\<close>

text \<open>
  An instance of \<^verbatim>\<open>File\<close>. The attribute \<^verbatim>\<open>local_path\<close> is not set by the
  constructor; staging code sets it later, and \<^verbatim>\<open>filepath\<close> tests for it with
  \<^verbatim>\<open>hasattr\<close>. \<open>None\<close> is the object without the attribute.
\<close>

record File =
  url :: string
  scheme :: string
  netloc :: string
  path :: string
  filename :: string
  local_path :: "string option"

text \<open>
  \<^verbatim>\<open>
  def __init__(self, url: str):
      self.url = url
      parsed_url = urlparse(self.url)
      self.scheme = parsed_url.scheme if parsed_url.scheme else 'file'
      self.netloc = parsed_url.netloc
      self.path = parsed_url.path
      self.filename = os.path.basename(self.path)
  \<close>
\<close>

definition File_init :: "string \<Rightarrow> exn + File" where
  "File_init u =
     (case urlparse u of
        Inl e \<Rightarrow> Inl e
      | Inr parsed_url \<Rightarrow>
          Inr \<lparr>url = u,
               scheme = (if pr_scheme parsed_url \<noteq> [] then pr_scheme parsed_url else ''file''),
               netloc = pr_netloc parsed_url,
               path = pr_path parsed_url,
               filename = basename (pr_path parsed_url),
               local_path = None\<rparr>)"

text \<open>
  The constructor as callers see it, under \<^verbatim>\<open>@typeguard.typechecked\<close>: the argument
  is checked against its annotation \<^verbatim>\<open>str\<close> before the body runs.
\<close>

definition File_new :: "py_value \<Rightarrow> exn + File" where
  "File_new v = (case v of PyStr u \<Rightarrow> File_init u | _ \<Rightarrow> Inl TypeError)"

text \<open>
  \<^verbatim>\<open>
  def is_remote(self):
      if self.scheme in ['ftp', 'http', 'https', 'globus']:
          return True
      elif self.scheme in ['file']:
          return False
      else:
          raise Exception('Cannot determine if unknown file scheme {} is remote'.format(self.scheme))
  \<close>
\<close>

definition is_remote :: "File \<Rightarrow> exn + bool" where
  "is_remote self =
     (if scheme self \<in> set [''ftp'', ''http'', ''https'', ''globus''] then Inr True
      else if scheme self \<in> set [''file''] then Inr False
      else Inl (Exception (''Cannot determine if unknown file scheme '' @ scheme self
                           @ '' is remote'')))"

text \<open>
  \<^verbatim>\<open>
  @property
  def filepath(self):
      if hasattr(self, 'local_path'):
          return self.local_path
      if self.scheme in ['ftp', 'http', 'https', 'globus']:
          return self.filename
      elif self.scheme in ['file']:
          return self.path
      else:
          raise Exception('Cannot return filepath for unknown scheme {}'.format(self.scheme))
  \<close>
\<close>

definition filepath :: "File \<Rightarrow> exn + string" where
  "filepath self =
     (case local_path self of
        Some p \<Rightarrow> Inr p
      | None \<Rightarrow>
          if scheme self \<in> set [''ftp'', ''http'', ''https'', ''globus''] then Inr (filename self)
          else if scheme self \<in> set [''file''] then Inr (path self)
          else Inl (Exception (''Cannot return filepath for unknown scheme '' @ scheme self)))"

text \<open>
  The conversions. \<^verbatim>\<open>__str__\<close> formats a debug message, which reads \<^verbatim>\<open>filepath\<close>
  once, hands it to the logger, and reads \<^verbatim>\<open>filepath\<close> again for its result; the
  messages passed to \<^verbatim>\<open>logger.debug\<close> are threaded through as a list.
  \<^verbatim>\<open>
  def __str__(self):
      logger.debug("File with URI {} providing string repr: {}".format(self.url, self.filepath))
      return self.filepath
  def __repr__(self):
      return self.__str__()
  def __fspath__(self):
      return self.filepath
  \<close>
\<close>

definition File_str :: "File \<Rightarrow> string list \<Rightarrow> (exn + string) \<times> string list" where
  "File_str self log =
     (case filepath self of
        Inl e \<Rightarrow> (Inl e, log)
      | Inr p \<Rightarrow>
          (let log' = log @ [''File with URI '' @ url self @ '' providing string repr: '' @ p]
           in (filepath self, log')))"

definition File_repr :: "File \<Rightarrow> string list \<Rightarrow> (exn + string) \<times> string list" where
  "File_repr self log = File_str self log"

definition File_fspath :: "File \<Rightarrow> exn + string" where
  "File_fspath self = filepath self"

text \<open>
  The assignment \<^verbatim>\<open>file.local_path = p\<close> by which staging code binds the local
  copy of the file.
\<close>

definition set_local_path :: "string \<Rightarrow> File \<Rightarrow> File" where
  "set_local_path p self = self\<lparr>local_path := Some p\<rparr>"

section \<open>Facts about the string operations\<close>









section \<open>Facts about the parser and the constructor\<close>

lemma check_bracketed_host_error: "check_bracketed_host h = Inl e \<Longrightarrow> e = ValueError"
  by (simp add: check_bracketed_host_def split: if_splits)

lemma urlsplit_error: "urlsplit u = Inl e \<Longrightarrow> e = ValueError"
  unfolding urlsplit_def Let_def
  by (auto split: prod.splits if_splits sum.splits dest: check_bracketed_host_error)

lemma urlparse_error: "urlparse u = Inl e \<Longrightarrow> e = ValueError"
  unfolding urlparse_def Let_def
  by (auto split: prod.splits if_splits sum.splits dest: urlsplit_error)

lemma File_init_Inr:
  "urlparse u = Inr p \<Longrightarrow>
   File_init u = Inr \<lparr>url = u, scheme = (if pr_scheme p \<noteq> [] then pr_scheme p else ''file''),
                      netloc = pr_netloc p, path = pr_path p, filename = basename (pr_path p),
                      local_path = None\<rparr>"
  by (simp add: File_init_def)

lemma File_init_Inl: "urlparse u = Inl e \<Longrightarrow> File_init u = Inl e"
  by (simp add: File_init_def)


section \<open>How \<^verbatim>\<open>urlparse\<close> cuts a string\<close>




























section \<open>The claims\<close>



text \<open>
  \<^bold>\<open>C2.\<close> Once \<open>local_path\<close> is bound to \<open>P\<close>, \<open>filepath\<close> returns \<open>P\<close> for every
  \<open>File\<close>, whatever its scheme, and raises nothing: the test for \<open>local_path\<close> comes
  before the scheme is looked at.
\<close>

theorem filepath_after_override:
  "filepath (set_local_path P f) = Inr P \<and> (\<forall>e. filepath (set_local_path P f) \<noteq> Inl e)"
  by (simp add: filepath_def set_local_path_def)

theorem filepath_after_override_witness:
  "filepath \<lparr>url = ''sftp://host/path'', scheme = ''sftp'', netloc = ''host'', path = ''/path'',
       filename = ''path'', local_path = None\<rparr>
     = Inl (Exception ''Cannot return filepath for unknown scheme sftp'')
   \<and> filepath (set_local_path ''/tmp/work/path''
      \<lparr>url = ''sftp://host/path'', scheme = ''sftp'', netloc = ''host'', path = ''/path'',
       filename = ''path'', local_path = None\<rparr>)
     = Inr ''/tmp/work/path''"
proof -
  have before: "filepath \<lparr>url = ''sftp://host/path'', scheme = ''sftp'', netloc = ''host'', path = ''/path'',
       filename = ''path'', local_path = None\<rparr>
     = Inl (Exception ''Cannot return filepath for unknown scheme sftp'')"
    by (simp add: filepath_def)
  from filepath_after_override[of "''/tmp/work/path''"
      "\<lparr>url = ''sftp://host/path'', scheme = ''sftp'', netloc = ''host'', path = ''/path'',
       filename = ''path'', local_path = None\<rparr>"]
  have after: "filepath (set_local_path ''/tmp/work/path''
      \<lparr>url = ''sftp://host/path'', scheme = ''sftp'', netloc = ''host'', path = ''/path'',
       filename = ''path'', local_path = None\<rparr>)
     = Inr ''/tmp/work/path''"
    by (rule conjunct1)
  from before after show ?thesis by (rule conjI)
qed

text \<open>
  \<^bold>\<open>C3.\<close> \<open>is_remote\<close> returns \<open>True\<close> exactly for the schemes \<open>ftp\<close>, \<open>http\<close>,
  \<open>https\<close>, \<open>globus\<close> and \<open>False\<close> exactly for the scheme \<open>file\<close>; two objects with
  the same scheme get the same answer, and the answer is all that \<open>is_remote\<close> produces.
\<close>

theorem is_remote_by_scheme:
  "(is_remote f = Inr True \<longleftrightarrow> scheme f \<in> {''ftp'', ''http'', ''https'', ''globus''})
   \<and> (is_remote f = Inr False \<longleftrightarrow> scheme f = ''file'')
   \<and> (scheme g = scheme f \<longrightarrow> is_remote g = is_remote f)"
  by (auto simp: is_remote_def)

theorem is_remote_by_scheme_witness:
  "is_remote \<lparr>url = ''https://h/a'', scheme = ''https'', netloc = ''h'', path = ''/a'',
              filename = ''a'', local_path = None\<rparr> = Inr True
   \<and> is_remote \<lparr>url = ''https://k/b/c'', scheme = ''https'', netloc = ''k'', path = ''/b/c'',
              filename = ''c'', local_path = Some ''/tmp/c''\<rparr> = Inr True"
  using is_remote_by_scheme[of "\<lparr>url = ''https://h/a'', scheme = ''https'', netloc = ''h'', path = ''/a'',
              filename = ''a'', local_path = None\<rparr>"
     "\<lparr>url = ''https://k/b/c'', scheme = ''https'', netloc = ''k'', path = ''/b/c'',
              filename = ''c'', local_path = Some ''/tmp/c''\<rparr>"]
  by simp

text \<open>
  \<^bold>\<open>C4.\<close> For a scheme that is neither \<open>file\<close> nor one of \<open>ftp\<close>, \<open>http\<close>,
  \<open>https\<close>, \<open>globus\<close>, \<open>is_remote\<close> raises an exception whose message contains the
  scheme, and so does \<open>filepath\<close> while no \<open>local_path\<close> is bound. Both only return a
  result: the object is not touched.
\<close>

theorem unknown_scheme_raises:
  assumes "scheme f \<notin> {''file'', ''ftp'', ''http'', ''https'', ''globus''}"
  shows "is_remote f = Inl (Exception (''Cannot determine if unknown file scheme '' @ scheme f
                                        @ '' is remote''))
       \<and> (local_path f = None \<longrightarrow>
            filepath f = Inl (Exception (''Cannot return filepath for unknown scheme ''
                                          @ scheme f)))"
  using assms by (simp add: is_remote_def filepath_def)

theorem unknown_scheme_raises_witness:
  "File_init ''sftp://host/path'' =
     Inr \<lparr>url = ''sftp://host/path'', scheme = ''sftp'', netloc = ''host'', path = ''/path'',
          filename = ''path'', local_path = None\<rparr>
   \<and> is_remote \<lparr>url = ''sftp://host/path'', scheme = ''sftp'', netloc = ''host'',
          path = ''/path'', filename = ''path'', local_path = None\<rparr>
       = Inl (Exception ''Cannot determine if unknown file scheme sftp is remote'')
   \<and> filepath \<lparr>url = ''sftp://host/path'', scheme = ''sftp'', netloc = ''host'',
          path = ''/path'', filename = ''path'', local_path = None\<rparr>
       = Inl (Exception ''Cannot return filepath for unknown scheme sftp'')"
proof -
  have a: "File_init ''sftp://host/path'' =
     Inr \<lparr>url = ''sftp://host/path'', scheme = ''sftp'', netloc = ''host'', path = ''/path'',
          filename = ''path'', local_path = None\<rparr>"
    by code_simp
  have s: "scheme \<lparr>url = ''sftp://host/path'', scheme = ''sftp'', netloc = ''host'',
          path = ''/path'', filename = ''path'', local_path = None\<rparr>
         \<notin> {''file'', ''ftp'', ''http'', ''https'', ''globus''}"
    by simp
  from unknown_scheme_raises[OF s] a show ?thesis by simp
qed




text \<open>
  \<^bold>\<open>C6.\<close> Binding \<open>local_path\<close> leaves the result of \<open>is_remote\<close> and the attributes
  \<open>url\<close>, \<open>scheme\<close>, \<open>netloc\<close>, \<open>path\<close> and \<open>filename\<close> as they were; what it changes
  is \<open>filepath\<close>, which becomes the bound path.
\<close>

theorem override_keeps_classification:
  "is_remote (set_local_path P f) = is_remote f
   \<and> url (set_local_path P f) = url f
   \<and> scheme (set_local_path P f) = scheme f
   \<and> netloc (set_local_path P f) = netloc f
   \<and> path (set_local_path P f) = path f
   \<and> filename (set_local_path P f) = filename f
   \<and> filepath (set_local_path P f) = Inr P"
  by (simp add: is_remote_def filepath_def set_local_path_def)

theorem override_keeps_classification_witness:
  "filepath \<lparr>url = ''globus://ep1/~/data/input.txt'', scheme = ''globus'', netloc = ''ep1'',
       path = ''/~/data/input.txt'', filename = ''input.txt'', local_path = None\<rparr>
     = Inr ''input.txt''
   \<and> filepath (set_local_path ''/tmp/work/input.txt''
      \<lparr>url = ''globus://ep1/~/data/input.txt'', scheme = ''globus'', netloc = ''ep1'',
       path = ''/~/data/input.txt'', filename = ''input.txt'', local_path = None\<rparr>)
     = Inr ''/tmp/work/input.txt''
   \<and> is_remote (set_local_path ''/tmp/work/input.txt''
      \<lparr>url = ''globus://ep1/~/data/input.txt'', scheme = ''globus'', netloc = ''ep1'',
       path = ''/~/data/input.txt'', filename = ''input.txt'', local_path = None\<rparr>)
     = Inr True"
proof -
  have before: "filepath \<lparr>url = ''globus://ep1/~/data/input.txt'', scheme = ''globus'', netloc = ''ep1'',
       path = ''/~/data/input.txt'', filename = ''input.txt'', local_path = None\<rparr>
     = Inr ''input.txt''"
    by (simp add: filepath_def)
  have remote: "is_remote \<lparr>url = ''globus://ep1/~/data/input.txt'', scheme = ''globus'', netloc = ''ep1'',
       path = ''/~/data/input.txt'', filename = ''input.txt'', local_path = None\<rparr>
     = Inr True"
    by (simp add: is_remote_def)
  from override_keeps_classification[of "''/tmp/work/input.txt''"
      "\<lparr>url = ''globus://ep1/~/data/input.txt'', scheme = ''globus'', netloc = ''ep1'',
       path = ''/~/data/input.txt'', filename = ''input.txt'', local_path = None\<rparr>"]
    before remote
  show ?thesis by simp
qed

text \<open>
  \<^bold>\<open>C7.\<close> \<open>__str__\<close>, \<open>__repr__\<close> and \<open>__fspath__\<close> return what \<open>filepath\<close> returns (the
  same string, or the same exception), for every object, with or without \<open>local_path\<close>,
  and whatever has been logged before.
\<close>

theorem conversions_give_filepath:
  "fst (File_str f log) = filepath f
   \<and> fst (File_repr f log) = filepath f
   \<and> File_fspath f = filepath f"
  by (simp add: File_str_def File_repr_def File_fspath_def Let_def split: sum.splits)

theorem conversions_give_filepath_witness:
  "fst (File_str \<lparr>url = ''sftp://host/path'', scheme = ''sftp'', netloc = ''host'', path = ''/path'',
       filename = ''path'', local_path = None\<rparr> [])
     = Inl (Exception ''Cannot return filepath for unknown scheme sftp'')
   \<and> fst (File_repr \<lparr>url = ''globus://ep1/~/data/input.txt'', scheme = ''globus'', netloc = ''ep1'',
       path = ''/~/data/input.txt'', filename = ''input.txt'', local_path = None\<rparr> [])
     = Inr ''input.txt''
   \<and> File_fspath \<lparr>url = ''globus://ep1/~/data/input.txt'', scheme = ''globus'', netloc = ''ep1'',
       path = ''/~/data/input.txt'', filename = ''input.txt'', local_path = None\<rparr>
     = Inr ''input.txt''"
proof -
  have a: "filepath \<lparr>url = ''sftp://host/path'', scheme = ''sftp'', netloc = ''host'', path = ''/path'',
       filename = ''path'', local_path = None\<rparr>
     = Inl (Exception ''Cannot return filepath for unknown scheme sftp'')"
    by (simp add: filepath_def)
  have b: "filepath \<lparr>url = ''globus://ep1/~/data/input.txt'', scheme = ''globus'', netloc = ''ep1'',
       path = ''/~/data/input.txt'', filename = ''input.txt'', local_path = None\<rparr>
     = Inr ''input.txt''"
    by (simp add: filepath_def)
  from conversions_give_filepath[of "\<lparr>url = ''sftp://host/path'', scheme = ''sftp'', netloc = ''host'', path = ''/path'',
       filename = ''path'', local_path = None\<rparr>" "[]"]
    conversions_give_filepath[of "\<lparr>url = ''globus://ep1/~/data/input.txt'', scheme = ''globus'', netloc = ''ep1'',
       path = ''/~/data/input.txt'', filename = ''input.txt'', local_path = None\<rparr>" "[]"]
    a b
  show ?thesis by simp
qed

text \<open>
  \<^bold>\<open>C8.\<close> Constructing from the bare path \<open>input.txt\<close> gives the scheme \<open>file\<close>, the
  path \<open>input.txt\<close>, the filename \<open>input.txt\<close>, and \<open>filepath\<close> returns \<open>input.txt\<close>.
\<close>

theorem bare_path_roundtrip:
  "File_init ''input.txt'' =
     Inr \<lparr>url = ''input.txt'', scheme = ''file'', netloc = [], path = ''input.txt'',
          filename = ''input.txt'', local_path = None\<rparr>
   \<and> filepath \<lparr>url = ''input.txt'', scheme = ''file'', netloc = [], path = ''input.txt'',
          filename = ''input.txt'', local_path = None\<rparr> = Inr ''input.txt''"
proof
  show "File_init ''input.txt'' =
     Inr \<lparr>url = ''input.txt'', scheme = ''file'', netloc = [], path = ''input.txt'',
          filename = ''input.txt'', local_path = None\<rparr>"
    by code_simp
  show "filepath \<lparr>url = ''input.txt'', scheme = ''file'', netloc = [], path = ''input.txt'',
          filename = ''input.txt'', local_path = None\<rparr> = Inr ''input.txt''"
    by (simp add: filepath_def)
qed

theorem bare_path_roundtrip_witness:
  "\<exists>f. File_init ''input.txt'' = Inr f \<and> filepath f = Inr (url f)"
  using bare_path_roundtrip by simp

text \<open>
  \<^bold>\<open>C9, as stated, fails.\<close> The claim has construction succeed for every string. The
  string \<open>//[\<close> passes the type check, and then \<open>urlparse\<close> rejects its authority
  \<open>[\<close> (an opening bracket without a closing one) with \<open>ValueError\<close>.
\<close>

theorem string_input_rejected_by_parser:
  "File_new (PyStr ''//['') = Inl ValueError"
  by code_simp

text \<open>
  \<^bold>\<open>C9, amended.\<close> For every argument that is not a string the constructor raises
  \<open>TypeError\<close>. For every string it does not raise \<open>TypeError\<close> and runs its body; it
  returns an object exactly when \<open>urlparse\<close> accepts the string, and the only exception
  it can raise is the \<open>ValueError\<close> of \<open>urlparse\<close>.
\<close>

theorem typecheck_then_parse:
  "((\<forall>s. v \<noteq> PyStr s) \<longrightarrow> File_new v = Inl TypeError)
   \<and> File_new (PyStr u) \<noteq> Inl TypeError
   \<and> File_new (PyStr u) = File_init u
   \<and> ((\<exists>f. File_new (PyStr u) = Inr f) \<longleftrightarrow> (\<exists>p. urlparse u = Inr p))
   \<and> (\<forall>e. File_new (PyStr u) = Inl e \<longrightarrow> e = ValueError \<and> urlparse u = Inl ValueError)"
proof (intro conjI)
  show "(\<forall>s. v \<noteq> PyStr s) \<longrightarrow> File_new v = Inl TypeError"
    by (cases v) (simp_all add: File_new_def)
  show new: "File_new (PyStr u) = File_init u" by (simp add: File_new_def)
  show "File_new (PyStr u) \<noteq> Inl TypeError"
  proof (cases "urlparse u")
    case (Inl e)
    with urlparse_error[OF Inl] show ?thesis by (simp add: new File_init_Inl)
  next
    case (Inr p)
    then show ?thesis by (simp add: new File_init_Inr)
  qed
  show "(\<exists>f. File_new (PyStr u) = Inr f) \<longleftrightarrow> (\<exists>p. urlparse u = Inr p)"
    by (cases "urlparse u") (simp_all add: new File_init_def)
  show "\<forall>e. File_new (PyStr u) = Inl e \<longrightarrow> e = ValueError \<and> urlparse u = Inl ValueError"
  proof (intro allI impI)
    fix e assume e: "File_new (PyStr u) = Inl e"
    then have "urlparse u = Inl e"
      by (cases "urlparse u") (simp_all add: new File_init_def)
    with urlparse_error[of u e] show "e = ValueError \<and> urlparse u = Inl ValueError" by simp
  qed
qed

theorem typecheck_then_parse_witness:
  "File_new (PyInt 5) = Inl TypeError
   \<and> File_new (PyStr ''input.txt'') \<noteq> Inl TypeError
   \<and> (\<exists>f. File_new (PyStr ''input.txt'') = Inr f)"
proof -
  have p: "urlparse ''input.txt'' =
     Inr \<lparr>pr_scheme = [], pr_netloc = [], pr_path = ''input.txt'',
          pr_params = [], pr_query = [], pr_fragment = []\<rparr>"
    by code_simp
  from typecheck_then_parse[of "PyInt 5" "''input.txt''"] p show ?thesis by blast
qed



end
